theory Spec2Isabelle
  imports Main
begin

section \<open>Strings and route tables of the middleware\<close>

text \<open>
  \<^verbatim>\<open>s.startsWith(searchString)\<close> of JavaScript: the search string is a prefix of \<open>s\<close>.
  Request pathnames are percent-encoded ASCII, so a \<open>char\<close> is one code unit.
\<close>

fun startsWith :: "string \<Rightarrow> string \<Rightarrow> bool" where
  "startsWith s [] = True"
| "startsWith [] (c # cs) = False"
| "startsWith (x # xs) (c # cs) = (x = c \<and> startsWith xs cs)"

text \<open>
  The four module-level tables of the middleware. The gatekeeper below takes the tables
  as an argument; \<open>routes\<close> is the value the source configures.
\<close>

record route_tables =
  protectedRoutes :: "string list"
  authRoutes :: "string list"
  publicRoutes :: "string list"
  adminRoutes :: "string list"

definition routes :: route_tables where
  "routes =
     \<lparr> protectedRoutes = [''/dashboard'', ''/profile'', ''/settings'', ''/admin''],
       authRoutes = [''/login'', ''/signup'', ''/forgot-password'', ''/reset-password''],
       publicRoutes = [''/'', ''/about'', ''/contact'', ''/pricing'', ''/blog''],
       adminRoutes = [''/admin''] \<rparr>"

text \<open>\<^verbatim>\<open>table.some(route => ...)\<close>: the four classifications of a pathname.\<close>

definition isProtectedRoute :: "route_tables \<Rightarrow> string \<Rightarrow> bool" where
  "isProtectedRoute t pathname =
     list_ex (\<lambda>route. startsWith pathname route) (protectedRoutes t)"

definition isAuthRoute :: "route_tables \<Rightarrow> string \<Rightarrow> bool" where
  "isAuthRoute t pathname =
     list_ex (\<lambda>route. startsWith pathname route) (authRoutes t)"

definition isPublicRoute :: "route_tables \<Rightarrow> string \<Rightarrow> bool" where
  "isPublicRoute t pathname =
     list_ex (\<lambda>route. pathname = route \<or> startsWith pathname (route @ ''/''))
       (publicRoutes t)"

definition isAdminRoute :: "route_tables \<Rightarrow> string \<Rightarrow> bool" where
  "isAdminRoute t pathname =
     list_ex (\<lambda>route. startsWith pathname route) (adminRoutes t)"

section \<open>Requests, responses and cookies\<close>

text \<open>
  A URL as the middleware uses it: the pathname and the query (\<^verbatim>\<open>searchParams\<close> and
  \<^verbatim>\<open>search\<close> are two views of the same pairs). \<^verbatim>\<open>clone()\<close> copies every other
  component unchanged, so they are left out.
\<close>

record url =
  pathname :: string
  searchParams :: "(string \<times> string) list"

subsection \<open>Assigning a pathname\<close>

text \<open>
  \<^verbatim>\<open>url.pathname = value\<close> does not store \<open>value\<close> as it is: the setter of an http(s)
  URL empties the path and parses \<open>value\<close> from the path start state of the URL
  Standard. Tabs and newlines are dropped; one leading \<^verbatim>\<open>/\<close> or \<^verbatim>\<open>\\\<close> is skipped; the
  rest is cut into segments at every \<^verbatim>\<open>/\<close> and \<^verbatim>\<open>\\\<close>; a single-dot segment is dropped
  and a double-dot segment removes the segment before it; every other character of the
  path percent-encode set (controls, space, \<^verbatim>\<open>" # < > ? ^ ` { }\<close>, and every byte above
  \<^verbatim>\<open>~\<close>) is written as \<^verbatim>\<open>%XX\<close>. The getter joins the segments, each after a
  \<^verbatim>\<open>/\<close>. Strings are byte strings here, a character beyond ASCII being its UTF-8 bytes.
\<close>

definition asciiTabOrNewline :: "char \<Rightarrow> bool" where
  "asciiTabOrNewline c = (c = CHR 0x09 \<or> c = CHR 0x0A \<or> c = CHR 0x0D)"

definition isSlash :: "char \<Rightarrow> bool" where
  "isSlash c = (c = CHR ''/'' \<or> c = CHR 0x5C)"

definition inPathPercentEncodeSet :: "char \<Rightarrow> bool" where
  "inPathPercentEncodeSet c =
     ((of_char c :: nat) \<le> 0x20 \<or> (of_char c :: nat) > 0x7E \<or>
      c \<in> set [CHR 0x22, CHR ''#'', CHR ''<'', CHR ''>'', CHR ''?'', CHR ''^'', CHR 0x60,
                 CHR ''{'', CHR ''}''])"

text \<open>A digit of the two-digit upper-case hexadecimal form; the argument is below 16.\<close>

definition hexDigit :: "nat \<Rightarrow> char" where
  "hexDigit n = ''0123456789ABCDEF'' ! n"

definition percentEncode :: "char \<Rightarrow> string" where
  "percentEncode c =
     [CHR ''%'', hexDigit ((of_char c :: nat) div 16), hexDigit ((of_char c :: nat) mod 16)]"

definition isSingleDot :: "string \<Rightarrow> bool" where
  "isSingleDot seg = (seg \<in> set [''.'', ''%2e'', ''%2E''])"

definition isDoubleDot :: "string \<Rightarrow> bool" where
  "isDoubleDot seg =
     (seg \<in> set [''..'', ''.%2e'', ''.%2E'', ''%2e.'', ''%2E.'',
                   ''%2e%2e'', ''%2e%2E'', ''%2E%2e'', ''%2E%2E''])"

text \<open>
  The end of a segment in the path state: \<open>slash\<close> tells whether the segment ends at a
  \<^verbatim>\<open>/\<close> or \<^verbatim>\<open>\\\<close> (true) or at the end of the input (false).
\<close>

definition endSegment :: "string list \<Rightarrow> string \<Rightarrow> bool \<Rightarrow> string list" where
  "endSegment path buffer slash =
     (if isDoubleDot buffer then
        (if slash then butlast path else butlast path @ [[]])
      else if isSingleDot buffer then
        (if slash then path else path @ [[]])
      else path @ [buffer])"

fun pathState :: "string list \<Rightarrow> string \<Rightarrow> string \<Rightarrow> string list" where
  "pathState path buffer [] = endSegment path buffer False"
| "pathState path buffer (c # cs) =
     (if isSlash c then pathState (endSegment path buffer True) [] cs
      else pathState path
             (buffer @ (if inPathPercentEncodeSet c then percentEncode c else [c])) cs)"

definition setPathname :: "string \<Rightarrow> string" where
  "setPathname v =
     (let input = filter (\<lambda>c. \<not> asciiTabOrNewline c) v;
          rest = (case input of
                    [] \<Rightarrow> []
                  | c # cs \<Rightarrow> if isSlash c then cs else input)
      in concat (map (\<lambda>seg. CHR ''/'' # seg) (pathState [] [] rest)))"

text \<open>
  Plain absolute paths: \<^verbatim>\<open>/\<close> alone, or a \<^verbatim>\<open>/\<close> followed by segments separated by
  \<^verbatim>\<open>/\<close>, each of them not empty, not a dot segment, and holding no \<^verbatim>\<open>\\\<close> and no
  character the setter encodes or drops. The setter leaves such a path as it is
  (\<open>setPathname_plainPath\<close>). \<open>plainSegments buffer cs\<close> reads the segments of \<open>cs\<close>,
  \<open>buffer\<close> being the part of the current segment already read.
\<close>

fun plainSegments :: "string \<Rightarrow> string \<Rightarrow> bool" where
  "plainSegments buffer [] =
     (buffer \<noteq> [] \<and> \<not> isSingleDot buffer \<and> \<not> isDoubleDot buffer)"
| "plainSegments buffer (c # cs) =
     (if c = CHR ''/'' then
        buffer \<noteq> [] \<and> \<not> isSingleDot buffer \<and> \<not> isDoubleDot buffer \<and> plainSegments [] cs
      else \<not> inPathPercentEncodeSet c \<and> c \<noteq> CHR 0x5C \<and> plainSegments (buffer @ [c]) cs)"

definition plainPath :: "string \<Rightarrow> bool" where
  "plainPath p =
     (case p of
        [] \<Rightarrow> False
      | c # cs \<Rightarrow> c = CHR ''/'' \<and> (cs = [] \<or> plainSegments [] cs))"

text \<open>\<^verbatim>\<open>URLSearchParams.get\<close>: the value of the first pair with that name, or null.\<close>

fun paramsGet :: "string \<Rightarrow> (string \<times> string) list \<Rightarrow> string option" where
  "paramsGet k [] = None"
| "paramsGet k ((k', v') # ps) = (if k' = k then Some v' else paramsGet k ps)"

text \<open>
  \<^verbatim>\<open>URLSearchParams.set\<close>: the first pair with that name takes the value and the
  later ones are removed; with no such pair, the pair is appended.
\<close>

fun paramsSet :: "string \<Rightarrow> string \<Rightarrow> (string \<times> string) list \<Rightarrow> (string \<times> string) list" where
  "paramsSet k v [] = [(k, v)]"
| "paramsSet k v ((k', v') # ps) =
     (if k' = k then (k, v) # filter (\<lambda>p. fst p \<noteq> k) ps
      else (k', v') # paramsSet k v ps)"

record cookie =
  cookieName :: string
  cookieValue :: string
  cookieOptions :: "(string \<times> string) list"

text \<open>
  \<^verbatim>\<open>response.cookies.set(name, value, options)\<close>: the jar is keyed by name; a name
  already there keeps its place and takes the new cookie.
\<close>

fun responseCookiesSet :: "cookie \<Rightarrow> cookie list \<Rightarrow> cookie list" where
  "responseCookiesSet c [] = [c]"
| "responseCookiesSet c (d # ds) =
     (if cookieName d = cookieName c then c # ds else d # responseCookiesSet c ds)"

text \<open>\<^verbatim>\<open>request.cookies.set(name, value)\<close>, on the request's name-value pairs.\<close>

fun requestCookiesSet :: "string \<Rightarrow> string \<Rightarrow> (string \<times> string) list \<Rightarrow> (string \<times> string) list" where
  "requestCookiesSet n v [] = [(n, v)]"
| "requestCookiesSet n v ((n', v') # cs) =
     (if n' = n then (n, v) # cs else (n', v') # requestCookiesSet n v cs)"

record request =
  nextUrl :: url
  cookies :: "(string \<times> string) list"

text \<open>
  \<^verbatim>\<open>NextResponse.next({ request })\<close> and \<^verbatim>\<open>NextResponse.redirect(url)\<close> both create a
  response with an empty cookie jar.
\<close>

datatype response =
  NextResponse (cookiesOf: "cookie list")
| RedirectResponse (location: url) (cookiesOf: "cookie list")

definition nextResponse :: response where
  "nextResponse = NextResponse []"

definition redirectResponse :: "url \<Rightarrow> response" where
  "redirectResponse u = RedirectResponse u []"

section \<open>The session provider as one request sees it\<close>

record auth_user =
  userId :: string
  email :: string

text \<open>
  The result of \<^verbatim>\<open>supabase.auth.getUser()\<close>, the provider's union
  \<^verbatim>\<open>{ data: { user }, error: null } | { data: { user: null }, error }\<close>.
\<close>

datatype user_response = UserData auth_user | UserError string

fun userOf :: "user_response \<Rightarrow> auth_user option" where
  "userOf (UserData u) = Some u"
| "userOf (UserError e) = None"

text \<open>
  What the backend does during one run of the middleware: the batches of cookies it
  passes to \<^verbatim>\<open>setAll\<close> while \<^verbatim>\<open>getUser\<close> runs (none when no token is refreshed),
  the result of \<^verbatim>\<open>getUser\<close>, and the \<^verbatim>\<open>data\<close> of the point lookup
  \<^verbatim>\<open>from('users').select('role').eq('id', id).single()\<close>: the row's role, or null when
  the lookup failed or found no row.
\<close>

record backend =
  setAllCalls :: "cookie list list"
  getUser :: user_response
  selectRole :: "string \<Rightarrow> string option"

text \<open>
  The two variables the \<^verbatim>\<open>setAll\<close> closure writes: the request's cookies and
  \<^verbatim>\<open>supabaseResponse\<close>.
\<close>

record session_state =
  requestCookies :: "(string \<times> string) list"
  supabaseResponse :: response

definition setAll :: "cookie list \<Rightarrow> session_state \<Rightarrow> session_state" where
  "setAll cookiesToSet st =
     \<lparr> requestCookies =
         foldl (\<lambda>jar c. requestCookiesSet (cookieName c) (cookieValue c) jar)
           (requestCookies st) cookiesToSet,
       supabaseResponse =
         NextResponse (foldl (\<lambda>jar c. responseCookiesSet c jar) (cookiesOf nextResponse) cookiesToSet) \<rparr>"

definition refreshSession :: "backend \<Rightarrow> request \<Rightarrow> session_state" where
  "refreshSession b req =
     foldl (\<lambda>st cookiesToSet. setAll cookiesToSet st)
       \<lparr> requestCookies = cookies req, supabaseResponse = nextResponse \<rparr>
       (setAllCalls b)"

section \<open>The middleware\<close>

text \<open>
  The block \<^verbatim>\<open>if (isProtectedRoute) { ... }\<close>: \<open>Some\<close> is one of its two early returns,
  \<open>None\<close> is falling through to the code after it.
\<close>

definition protectedGuard ::
  "route_tables \<Rightarrow> backend \<Rightarrow> request \<Rightarrow> auth_user option \<Rightarrow> response option" where
  "protectedGuard t b req user =
     (let p = pathname (nextUrl req) in
      if isProtectedRoute t p then
        (case user of
           None \<Rightarrow>
             Some (redirectResponse
               ((nextUrl req)\<lparr> pathname := ''/login'',
                  searchParams := paramsSet ''redirectTo'' p (searchParams (nextUrl req)) \<rparr>))
         | Some u \<Rightarrow>
             if isAdminRoute t p then
               (if selectRole b (userId u) \<noteq> Some ''admin''
                then Some (redirectResponse ((nextUrl req)\<lparr> pathname := ''/dashboard'' \<rparr>))
                else None)
             else None)
      else None)"

text \<open>
  The block \<^verbatim>\<open>if (isAuthRoute && user) { ... }\<close>. \<^verbatim>\<open>redirectTo && ...\<close> holds for a
  string that is neither null nor empty. The auth-route test reads the parameter as it
  came; the redirect gets what the pathname setter makes of it. The constant pathnames
  \<^verbatim>\<open>/login\<close> and \<^verbatim>\<open>/dashboard\<close> are written as the setter leaves them
  (\<open>setPathname_constants\<close>).
\<close>

definition authRouteRedirect :: "route_tables \<Rightarrow> request \<Rightarrow> response" where
  "authRouteRedirect t req =
     (case paramsGet ''redirectTo'' (searchParams (nextUrl req)) of
        Some redirectTo \<Rightarrow>
          if redirectTo \<noteq> [] \<and> \<not> isAuthRoute t redirectTo
          then redirectResponse ((nextUrl req)\<lparr> pathname := setPathname redirectTo, searchParams := [] \<rparr>)
          else redirectResponse ((nextUrl req)\<lparr> pathname := ''/dashboard'', searchParams := [] \<rparr>)
      | None \<Rightarrow>
          redirectResponse ((nextUrl req)\<lparr> pathname := ''/dashboard'', searchParams := [] \<rparr>))"

text \<open>
  The function \<^verbatim>\<open>middleware\<close>, over a table of routes. The development-only
  \<^verbatim>\<open>console.warn\<close> of the session error decides nothing and is left out.
\<close>

definition middlewareOn :: "route_tables \<Rightarrow> backend \<Rightarrow> request \<Rightarrow> response" where
  "middlewareOn t b req =
     (let st = refreshSession b req;
          user = userOf (getUser b);
          p = pathname (nextUrl req)
      in if startsWith p ''/auth/callback'' then supabaseResponse st
         else if isPublicRoute t p \<and> \<not> isProtectedRoute t p then supabaseResponse st
         else (case protectedGuard t b req user of
                 Some r \<Rightarrow> r
               | None \<Rightarrow>
                   if isAuthRoute t p \<and> user \<noteq> None then authRouteRedirect t req
                   else supabaseResponse st))"

definition middleware :: "backend \<Rightarrow> request \<Rightarrow> response" where
  "middleware = middlewareOn routes"

section \<open>Role helpers of lib/auth.ts\<close>

text \<open>The enum \<^verbatim>\<open>user_role\<close>, in the order the schema declares it.\<close>

datatype user_role = Admin | User | Moderator

fun roleName :: "user_role \<Rightarrow> string" where
  "roleName Admin = ''admin''"
| "roleName User = ''user''"
| "roleName Moderator = ''moderator''"

text \<open>
  A row of the table \<^verbatim>\<open>users\<close> (the type \<^verbatim>\<open>User\<close>); the columns no helper below
  reads (avatar, bio, the timestamps) are left out.
\<close>

record user_row =
  rowId :: string
  rowEmail :: string
  rowName :: "string option"
  role :: user_role
  is_active :: bool

text \<open>
  The result \<^verbatim>\<open>{ data, error }\<close> of \<^verbatim>\<open>from('users').select('*').eq('id', id).single()\<close>:
  the row, or an error (also when no row matches).
\<close>

datatype row_response = RowData user_row | RowError string

text \<open>
  The server context of one call: what \<^verbatim>\<open>supabase.auth.getUser()\<close> answers for the
  caller's cookies (\<open>UserError\<close> also stands for a call that throws, which
  \<^verbatim>\<open>getCurrentUser\<close> catches), and the lookup of a profile by id.
\<close>

record server =
  authGetUser :: user_response
  selectUser :: "string \<Rightarrow> row_response"

datatype auth_error = AuthError (message: string) (code: "string option")

definition getCurrentUser :: "server \<Rightarrow> auth_user option" where
  "getCurrentUser s =
     (case authGetUser s of
        UserError e \<Rightarrow> None
      | UserData u \<Rightarrow> Some u)"

definition getCurrentUserProfile :: "server \<Rightarrow> user_row option" where
  "getCurrentUserProfile s =
     (case getCurrentUser s of
        None \<Rightarrow> None
      | Some u \<Rightarrow>
          (case selectUser s (userId u) of
             RowError e \<Rightarrow> None
           | RowData profile \<Rightarrow> Some profile))"

fun roleHierarchy :: "user_role \<Rightarrow> nat" where
  "roleHierarchy User = 1"
| "roleHierarchy Moderator = 2"
| "roleHierarchy Admin = 3"

text \<open>
  \<^verbatim>\<open>checkUserRole(requiredRole, userRole?)\<close>: without the second argument the role is
  the current profile's, and no profile gives false.
\<close>

definition checkUserRole :: "server \<Rightarrow> user_role \<Rightarrow> user_role option \<Rightarrow> bool" where
  "checkUserRole s requiredRole userRole =
     (case userRole of
        Some r \<Rightarrow> roleHierarchy r \<ge> roleHierarchy requiredRole
      | None \<Rightarrow>
          (case getCurrentUserProfile s of
             None \<Rightarrow> False
           | Some profile \<Rightarrow> roleHierarchy (role profile) \<ge> roleHierarchy requiredRole))"

definition requireAuth :: "server \<Rightarrow> auth_error + auth_user" where
  "requireAuth s =
     (case getCurrentUser s of
        None \<Rightarrow> Inl (AuthError ''Authentication required'' (Some ''UNAUTHORIZED''))
      | Some u \<Rightarrow> Inr u)"

definition requireRole :: "server \<Rightarrow> user_role \<Rightarrow> auth_error + user_row" where
  "requireRole s requiredRole =
     (case requireAuth s of
        Inl e \<Rightarrow> Inl e
      | Inr u \<Rightarrow>
          (case getCurrentUserProfile s of
             None \<Rightarrow> Inl (AuthError ''User profile not found'' (Some ''PROFILE_NOT_FOUND''))
           | Some profile \<Rightarrow>
               if \<not> checkUserRole s requiredRole (Some (role profile))
               then Inl (AuthError (''Access denied. Required role: '' @ roleName requiredRole)
                          (Some ''INSUFFICIENT_PERMISSIONS''))
               else Inr profile))"

section \<open>Facts about prefixes and the configured tables\<close>

lemma startsWith_append: "startsWith s r \<longleftrightarrow> (\<exists>rest. s = r @ rest)"
  by (induction s r rule: startsWith.induct) auto

lemma admin_is_protected_table: "set (adminRoutes routes) \<subseteq> set (protectedRoutes routes)"
  by (simp add: routes_def)

text \<open>
  Under the configured tables the prefixes of the classes do not overlap: a protected or
  auth-only pathname is never under the callback prefix, an auth-only pathname is neither
  protected nor public, and no pathname is both public and protected.
\<close>

lemma protected_not_callback:
  "isProtectedRoute routes p \<Longrightarrow> \<not> startsWith p ''/auth/callback''"
  by (auto simp: isProtectedRoute_def routes_def startsWith_append)

lemma auth_not_callback:
  "isAuthRoute routes p \<Longrightarrow> \<not> startsWith p ''/auth/callback''"
  by (auto simp: isAuthRoute_def routes_def startsWith_append)

lemma auth_not_protected:
  "isAuthRoute routes p \<Longrightarrow> \<not> isProtectedRoute routes p"
  by (auto simp: isAuthRoute_def isProtectedRoute_def routes_def startsWith_append)

lemma auth_not_public:
  "isAuthRoute routes p \<Longrightarrow> \<not> isPublicRoute routes p"
  by (auto simp: isAuthRoute_def isPublicRoute_def routes_def startsWith_append)

lemma public_not_protected:
  "isPublicRoute routes p \<Longrightarrow> \<not> isProtectedRoute routes p"
  by (auto simp: isProtectedRoute_def isPublicRoute_def routes_def startsWith_append)

section \<open>Facts about the pathname setter\<close>

lemma setPathname_constants:
  "setPathname ''/login'' = ''/login''" "setPathname ''/dashboard'' = ''/dashboard''"
  "setPathname ''/'' = ''/''"
  by (simp_all add: setPathname_def endSegment_def isSlash_def isSingleDot_def isDoubleDot_def
      inPathPercentEncodeSet_def asciiTabOrNewline_def)

text \<open>
  The setter at work: a missing leading \<^verbatim>\<open>/\<close> is supplied, dot segments are resolved,
  a \<^verbatim>\<open>?\<close> is encoded, a \<^verbatim>\<open>\\\<close> counts as \<^verbatim>\<open>/\<close> and a newline is dropped.
\<close>

lemma setPathname_examples:
  "setPathname ''login'' = ''/login''"
  "setPathname ''/../signup'' = ''/signup''"
  "setPathname ''/a?b=c'' = ''/a%3Fb=c''"
  "setPathname [] = ''/''"
  "setPathname ''/a/./b/%2E%2e/c/'' = ''/a/c/''"
  "setPathname [CHR 0x5C, CHR ''l'', CHR 0x0A, CHR ''o'', CHR ''g'', CHR ''i'', CHR ''n''] = ''/login''"
  "setPathname ''/a b'' = ''/a%20b''"
  by (simp_all add: setPathname_def endSegment_def isSlash_def isSingleDot_def isDoubleDot_def
      inPathPercentEncodeSet_def asciiTabOrNewline_def percentEncode_def hexDigit_def)

lemma tab_or_newline_encoded: "asciiTabOrNewline c \<Longrightarrow> inPathPercentEncodeSet c"
proof -
  assume "asciiTabOrNewline c"
  then consider "c = CHR 0x09" | "c = CHR 0x0A" | "c = CHR 0x0D"
    unfolding asciiTabOrNewline_def by blast
  then show ?thesis
  proof cases
    case 1
    show ?thesis unfolding 1 by (simp add: inPathPercentEncodeSet_def)
  next
    case 2
    show ?thesis unfolding 2 by (simp add: inPathPercentEncodeSet_def)
  next
    case 3
    show ?thesis unfolding 3 by (simp add: inPathPercentEncodeSet_def)
  qed
qed

lemma plain_char_kept: "\<not> inPathPercentEncodeSet c \<Longrightarrow> \<not> asciiTabOrNewline c"
  using tab_or_newline_encoded by blast

lemma plainSegments_filter:
  "plainSegments buffer cs \<Longrightarrow> filter (\<lambda>c. \<not> asciiTabOrNewline c) cs = cs"
proof (induction cs arbitrary: buffer)
  case Nil
  then show ?case by simp
next
  case (Cons c cs)
  show ?case
  proof (cases "c = CHR ''/''")
    case True
    with Cons.prems have "plainSegments [] cs" by simp
    from Cons.IH [OF this] True show ?thesis
      by (simp add: asciiTabOrNewline_def)
  next
    case False
    with Cons.prems have keep: "\<not> inPathPercentEncodeSet c"
      and rest: "plainSegments (buffer @ [c]) cs" by simp_all
    from Cons.IH [OF rest] plain_char_kept [OF keep] show ?thesis by simp
  qed
qed

lemma endSegment_plain:
  "\<not> isSingleDot buffer \<Longrightarrow> \<not> isDoubleDot buffer \<Longrightarrow>
   endSegment path buffer slash = path @ [buffer]"
  by (simp add: endSegment_def)

lemma pathState_slash:
  "pathState path buffer (CHR ''/'' # cs) = pathState (endSegment path buffer True) [] cs"
  by (simp add: isSlash_def)

lemma pathState_plain_char:
  "c \<noteq> CHR ''/'' \<Longrightarrow> c \<noteq> CHR 0x5C \<Longrightarrow> \<not> inPathPercentEncodeSet c \<Longrightarrow>
   pathState path buffer (c # cs) = pathState path (buffer @ [c]) cs"
  by (simp add: isSlash_def)

lemma pathState_plainSegments:
  "plainSegments buffer cs \<Longrightarrow>
   concat (map (\<lambda>seg. CHR ''/'' # seg) (pathState path buffer cs)) =
     concat (map (\<lambda>seg. CHR ''/'' # seg) path) @ CHR ''/'' # buffer @ cs"
proof (induction cs arbitrary: path buffer)
  case Nil
  then have "pathState path buffer [] = path @ [buffer]"
    by (simp add: endSegment_plain)
  then show ?case by simp
next
  case (Cons c cs)
  show ?case
  proof (cases "c = CHR ''/''")
    case True
    with Cons.prems have seg: "\<not> isSingleDot buffer" "\<not> isDoubleDot buffer"
      and rest: "plainSegments [] cs" by simp_all
    have "pathState path buffer (c # cs) = pathState (path @ [buffer]) [] cs"
      unfolding True pathState_slash endSegment_plain [OF seg] ..
    with Cons.IH [OF rest, of "path @ [buffer]"] True show ?thesis
      by simp
  next
    case False
    with Cons.prems have keep: "\<not> inPathPercentEncodeSet c" and bs: "c \<noteq> CHR 0x5C"
      and rest: "plainSegments (buffer @ [c]) cs" by simp_all
    have "pathState path buffer (c # cs) = pathState path (buffer @ [c]) cs"
      by (rule pathState_plain_char [OF False bs keep])
    with Cons.IH [OF rest, of path] show ?thesis
      by simp
  qed
qed

lemma setPathname_plainPath: "plainPath p \<Longrightarrow> setPathname p = p"
proof (cases p)
  case Nil
  assume "plainPath p"
  with Nil show ?thesis by (simp add: plainPath_def)
next
  case (Cons c cs)
  assume "plainPath p"
  with Cons have c: "c = CHR ''/''" and segs: "cs = [] \<or> plainSegments [] cs"
    by (simp_all add: plainPath_def)
  show ?thesis
  proof (cases "cs = []")
    case True
    with Cons c show ?thesis by (simp add: setPathname_constants)
  next
    case False
    with segs have plain: "plainSegments [] cs" by simp
    from plainSegments_filter [OF plain] pathState_plainSegments [OF plain, of "[]"] Cons c
    show ?thesis
      by (simp add: setPathname_def isSlash_def asciiTabOrNewline_def)
  qed
qed

section \<open>Facts about query parameters and the cookie jar\<close>

lemma paramsGet_paramsSet: "paramsGet k (paramsSet k v ps) = Some v"
  by (induction ps) auto

lemma paramsSet_single: "filter (\<lambda>q. fst q = k) (paramsSet k v ps) = [(k, v)]"
  by (induction ps) (auto simp: filter_empty_conv)

lemma responseCookiesSet_fresh:
  "cookieName c \<notin> cookieName ` set jar \<Longrightarrow> responseCookiesSet c jar = jar @ [c]"
  by (induction jar) auto

lemma foldl_responseCookiesSet_fresh:
  "distinct (map cookieName (jar @ cs)) \<Longrightarrow>
   foldl (\<lambda>jar c. responseCookiesSet c jar) jar cs = jar @ cs"
proof (induction cs arbitrary: jar)
  case Nil
  then show ?case by simp
next
  case (Cons c cs)
  from Cons.prems have fresh: "cookieName c \<notin> cookieName ` set jar"
    by auto
  from Cons.prems have "distinct (map cookieName ((jar @ [c]) @ cs))"
    by simp
  from Cons.IH [OF this] fresh show ?case
    by (simp add: responseCookiesSet_fresh)
qed

lemma refreshSession_none:
  "setAllCalls b = [] \<Longrightarrow> supabaseResponse (refreshSession b req) = NextResponse []"
  by (simp add: refreshSession_def nextResponse_def)

lemma refreshSession_last:
  "setAllCalls b = calls @ [cs] \<Longrightarrow>
   supabaseResponse (refreshSession b req) =
     NextResponse (foldl (\<lambda>jar c. responseCookiesSet c jar) [] cs)"
  by (simp add: refreshSession_def setAll_def nextResponse_def)

lemma refreshSession_carries:
  "setAllCalls b = calls @ [cs] \<Longrightarrow> distinct (map cookieName cs) \<Longrightarrow>
   supabaseResponse (refreshSession b req) = NextResponse cs"
  using foldl_responseCookiesSet_fresh [of "[]" cs] by (simp add: refreshSession_last)

lemma supabaseResponse_next:
  "supabaseResponse (refreshSession b req) =
     NextResponse (cookiesOf (supabaseResponse (refreshSession b req)))"
proof (cases "setAllCalls b" rule: rev_cases)
  case Nil
  then show ?thesis by (simp add: refreshSession_none)
next
  case (snoc calls cs)
  then show ?thesis by (simp add: refreshSession_last)
qed

section \<open>The branches of the middleware\<close>

lemma middlewareOn_callback:
  "startsWith (pathname (nextUrl req)) ''/auth/callback'' \<Longrightarrow>
   middlewareOn t b req = supabaseResponse (refreshSession b req)"
  by (simp add: middlewareOn_def Let_def)

lemma middlewareOn_public:
  "isPublicRoute t (pathname (nextUrl req)) \<Longrightarrow> \<not> isProtectedRoute t (pathname (nextUrl req)) \<Longrightarrow>
   middlewareOn t b req = supabaseResponse (refreshSession b req)"
  by (simp add: middlewareOn_def Let_def)

lemma middlewareOn_login:
  "\<not> startsWith (pathname (nextUrl req)) ''/auth/callback'' \<Longrightarrow>
   isProtectedRoute t (pathname (nextUrl req)) \<Longrightarrow> userOf (getUser b) = None \<Longrightarrow>
   middlewareOn t b req =
     redirectResponse ((nextUrl req)\<lparr> pathname := ''/login'',
        searchParams := paramsSet ''redirectTo'' (pathname (nextUrl req)) (searchParams (nextUrl req)) \<rparr>)"
  by (simp add: middlewareOn_def protectedGuard_def Let_def)

lemma middlewareOn_not_admin:
  "\<not> startsWith (pathname (nextUrl req)) ''/auth/callback'' \<Longrightarrow>
   isProtectedRoute t (pathname (nextUrl req)) \<Longrightarrow> isAdminRoute t (pathname (nextUrl req)) \<Longrightarrow>
   userOf (getUser b) = Some u \<Longrightarrow> selectRole b (userId u) \<noteq> Some ''admin'' \<Longrightarrow>
   middlewareOn t b req = redirectResponse ((nextUrl req)\<lparr> pathname := ''/dashboard'' \<rparr>)"
  by (simp add: middlewareOn_def protectedGuard_def Let_def)

lemma middlewareOn_auth_route:
  "\<not> startsWith (pathname (nextUrl req)) ''/auth/callback'' \<Longrightarrow>
   \<not> isPublicRoute t (pathname (nextUrl req)) \<Longrightarrow>
   \<not> isProtectedRoute t (pathname (nextUrl req)) \<Longrightarrow> isAuthRoute t (pathname (nextUrl req)) \<Longrightarrow>
   userOf (getUser b) = Some u \<Longrightarrow>
   middlewareOn t b req = authRouteRedirect t req"
  by (simp add: middlewareOn_def protectedGuard_def Let_def)

lemma middlewareOn_unauthenticated:
  "userOf (getUser b) = None \<Longrightarrow>
   middlewareOn t b req =
     (if startsWith (pathname (nextUrl req)) ''/auth/callback'' then supabaseResponse (refreshSession b req)
      else if isProtectedRoute t (pathname (nextUrl req)) then
        redirectResponse ((nextUrl req)\<lparr> pathname := ''/login'',
          searchParams := paramsSet ''redirectTo'' (pathname (nextUrl req)) (searchParams (nextUrl req)) \<rparr>)
      else supabaseResponse (refreshSession b req))"
  by (simp add: middlewareOn_def protectedGuard_def Let_def)

lemma refreshSession_getUser:
  "refreshSession (b\<lparr> getUser := r \<rparr>) req = refreshSession b req"
  by (simp add: refreshSession_def)

section \<open>Cookies of the session refresh (C1)\<close>

text \<open>
  Claim C1 says that the cookies written during the session refresh are on the response
  of every branch, redirects included. The source's own comment asks for it (return
  \<^verbatim>\<open>supabaseResponse\<close> as it is, or copy its cookies to the new response), and the
  pass-through branches do it. The redirect branches return a fresh
  \<^verbatim>\<open>NextResponse.redirect(...)\<close> instead: for a signed-in caller whose token was just
  refreshed and who opens \<^verbatim>\<open>/login\<close>, \<^verbatim>\<open>supabaseResponse\<close> holds the fresh cookie
  and the returned redirect to \<^verbatim>\<open>/dashboard\<close> holds none.
\<close>

theorem redirect_drops_refreshed_cookies:
  "supabaseResponse (refreshSession
     \<lparr> setAllCalls = [[\<lparr> cookieName = ''sb-access-token'', cookieValue = ''fresh'', cookieOptions = [] \<rparr>]],
       getUser = UserData \<lparr> userId = ''u1'', email = ''a@example.com'' \<rparr>,
       selectRole = (\<lambda>i. Some ''user'') \<rparr>
     \<lparr> nextUrl = \<lparr> pathname = ''/login'', searchParams = [] \<rparr>,
       cookies = [(''sb-access-token'', ''stale'')] \<rparr>)
   = NextResponse [\<lparr> cookieName = ''sb-access-token'', cookieValue = ''fresh'', cookieOptions = [] \<rparr>] \<and>
   middleware
     \<lparr> setAllCalls = [[\<lparr> cookieName = ''sb-access-token'', cookieValue = ''fresh'', cookieOptions = [] \<rparr>]],
       getUser = UserData \<lparr> userId = ''u1'', email = ''a@example.com'' \<rparr>,
       selectRole = (\<lambda>i. Some ''user'') \<rparr>
     \<lparr> nextUrl = \<lparr> pathname = ''/login'', searchParams = [] \<rparr>,
       cookies = [(''sb-access-token'', ''stale'')] \<rparr>
   = RedirectResponse \<lparr> pathname = ''/dashboard'', searchParams = [] \<rparr> []"
  by (simp add: middleware_def middlewareOn_def protectedGuard_def authRouteRedirect_def
      refreshSession_def setAll_def nextResponse_def redirectResponse_def Let_def
      isProtectedRoute_def isPublicRoute_def isAuthRoute_def isAdminRoute_def routes_def)

section \<open>Failing lookups (C2)\<close>

text \<open>
  Claim C2 as stated fails for the role lookup: a signed-in caller on \<^verbatim>\<open>/admin\<close> whose
  role lookup returns no row is sent to \<^verbatim>\<open>/dashboard\<close>, while an unauthenticated
  caller on the same path is sent to \<^verbatim>\<open>/login?redirectTo=/admin\<close>.
\<close>

theorem role_lookup_failure_counterexample:
  "selectRole
     \<lparr> setAllCalls = [], getUser = UserData \<lparr> userId = ''u1'', email = ''a@example.com'' \<rparr>,
       selectRole = (\<lambda>i. None) \<rparr> ''u1'' = None \<and>
   isAdminRoute routes ''/admin'' \<and>
   middleware
     \<lparr> setAllCalls = [], getUser = UserData \<lparr> userId = ''u1'', email = ''a@example.com'' \<rparr>,
       selectRole = (\<lambda>i. None) \<rparr>
     \<lparr> nextUrl = \<lparr> pathname = ''/admin'', searchParams = [] \<rparr>, cookies = [] \<rparr>
   = RedirectResponse \<lparr> pathname = ''/dashboard'', searchParams = [] \<rparr> [] \<and>
   middleware
     \<lparr> setAllCalls = [], getUser = UserError ''Auth session missing!'',
       selectRole = (\<lambda>i. None) \<rparr>
     \<lparr> nextUrl = \<lparr> pathname = ''/admin'', searchParams = [] \<rparr>, cookies = [] \<rparr>
   = RedirectResponse \<lparr> pathname = ''/login'', searchParams = [(''redirectTo'', ''/admin'')] \<rparr> []"
  by (simp add: middleware_def middlewareOn_def protectedGuard_def
      refreshSession_def nextResponse_def redirectResponse_def Let_def
      isProtectedRoute_def isPublicRoute_def isAdminRoute_def routes_def)

text \<open>
  Claim C2, amended: when session resolution returns an error, the middleware returns
  what it returns for every unauthenticated caller on that path (the login redirect
  carrying the path on a protected path, the pass-through response otherwise), whatever
  the error is; when the role lookup of an authenticated caller on an admin-protected
  path fails or finds no row, the middleware returns the redirect to the dashboard, the
  outcome of an authenticated non-admin. In both cases the result is a response.
\<close>

theorem lookup_failures_degrade:
  "(getUser b = UserError e \<longrightarrow>
      middleware b req =
        (if isProtectedRoute routes (pathname (nextUrl req)) then
           redirectResponse ((nextUrl req)\<lparr> pathname := ''/login'',
             searchParams := paramsSet ''redirectTo'' (pathname (nextUrl req)) (searchParams (nextUrl req)) \<rparr>)
         else supabaseResponse (refreshSession b req)) \<and>
      middleware b req = middleware (b\<lparr> getUser := UserError e' \<rparr>) req) \<and>
   (getUser b = UserData u \<and> isAdminRoute routes (pathname (nextUrl req)) \<and>
    selectRole b (userId u) = None \<longrightarrow>
      middleware b req = redirectResponse ((nextUrl req)\<lparr> pathname := ''/dashboard'' \<rparr>))"
proof (intro conjI impI)
  assume err: "getUser b = UserError e"
  have shape: "middleware c req =
        (if isProtectedRoute routes (pathname (nextUrl req)) then
           redirectResponse ((nextUrl req)\<lparr> pathname := ''/login'',
             searchParams := paramsSet ''redirectTo'' (pathname (nextUrl req)) (searchParams (nextUrl req)) \<rparr>)
         else supabaseResponse (refreshSession c req))"
    if "userOf (getUser c) = None" for c
    using middlewareOn_unauthenticated [OF that, of routes req] protected_not_callback [of "pathname (nextUrl req)"]
    by (auto simp: middleware_def)
  from err show first: "middleware b req =
        (if isProtectedRoute routes (pathname (nextUrl req)) then
           redirectResponse ((nextUrl req)\<lparr> pathname := ''/login'',
             searchParams := paramsSet ''redirectTo'' (pathname (nextUrl req)) (searchParams (nextUrl req)) \<rparr>)
         else supabaseResponse (refreshSession b req))"
    by (simp add: shape)
  have "middleware (b\<lparr> getUser := UserError e' \<rparr>) req =
        (if isProtectedRoute routes (pathname (nextUrl req)) then
           redirectResponse ((nextUrl req)\<lparr> pathname := ''/login'',
             searchParams := paramsSet ''redirectTo'' (pathname (nextUrl req)) (searchParams (nextUrl req)) \<rparr>)
         else supabaseResponse (refreshSession b req))"
    by (simp add: shape refreshSession_getUser)
  with first show "middleware b req = middleware (b\<lparr> getUser := UserError e' \<rparr>) req"
    by simp
next
  assume h: "getUser b = UserData u \<and> isAdminRoute routes (pathname (nextUrl req)) \<and>
    selectRole b (userId u) = None"
  then have adm: "isAdminRoute routes (pathname (nextUrl req))" by simp
  then have prot: "isProtectedRoute routes (pathname (nextUrl req))"
    by (simp add: isAdminRoute_def isProtectedRoute_def routes_def)
  from h have usr: "userOf (getUser b) = Some u" by simp
  from h have rol: "selectRole b (userId u) \<noteq> Some ''admin''" by simp
  from middlewareOn_not_admin [OF protected_not_callback [OF prot] prot adm usr rol]
  show "middleware b req = redirectResponse ((nextUrl req)\<lparr> pathname := ''/dashboard'' \<rparr>)"
    by (simp add: middleware_def)
qed

theorem lookup_failures_degrade_witness:
  "middleware
     \<lparr> setAllCalls = [], getUser = UserError ''invalid JWT'', selectRole = (\<lambda>i. Some ''admin'') \<rparr>
     \<lparr> nextUrl = \<lparr> pathname = ''/profile'', searchParams = [] \<rparr>, cookies = [] \<rparr>
   = RedirectResponse \<lparr> pathname = ''/login'', searchParams = [(''redirectTo'', ''/profile'')] \<rparr> [] \<and>
   middleware
     \<lparr> setAllCalls = [], getUser = UserError ''invalid JWT'', selectRole = (\<lambda>i. Some ''admin'') \<rparr>
     \<lparr> nextUrl = \<lparr> pathname = ''/profile'', searchParams = [] \<rparr>, cookies = [] \<rparr>
   = middleware
     \<lparr> setAllCalls = [], getUser = UserError ''Auth session missing!'', selectRole = (\<lambda>i. Some ''admin'') \<rparr>
     \<lparr> nextUrl = \<lparr> pathname = ''/profile'', searchParams = [] \<rparr>, cookies = [] \<rparr> \<and>
   middleware
     \<lparr> setAllCalls = [], getUser = UserData \<lparr> userId = ''u1'', email = ''a@example.com'' \<rparr>,
       selectRole = (\<lambda>i. None) \<rparr>
     \<lparr> nextUrl = \<lparr> pathname = ''/admin/logs'', searchParams = [] \<rparr>, cookies = [] \<rparr>
   = RedirectResponse \<lparr> pathname = ''/dashboard'', searchParams = [] \<rparr> []"
proof -
  let ?b1 = "\<lparr> setAllCalls = [], getUser = UserError ''invalid JWT'', selectRole = (\<lambda>i. Some ''admin'') \<rparr>"
  let ?r1 = "\<lparr> nextUrl = \<lparr> pathname = ''/profile'', searchParams = [] \<rparr>, cookies = [] \<rparr>"
  let ?u = "\<lparr> userId = ''u1'', email = ''a@example.com'' \<rparr>"
  let ?b2 = "\<lparr> setAllCalls = [], getUser = UserData ?u, selectRole = (\<lambda>i. None) \<rparr>"
  let ?r2 = "\<lparr> nextUrl = \<lparr> pathname = ''/admin/logs'', searchParams = [] \<rparr>, cookies = [] \<rparr>"
  have prot: "isProtectedRoute routes (pathname (nextUrl ?r1))"
    by (simp add: isProtectedRoute_def routes_def)
  have adm: "isAdminRoute routes (pathname (nextUrl ?r2))"
    by (simp add: isAdminRoute_def routes_def)
  have e1: "getUser ?b1 = UserError ''invalid JWT''" by simp
  have h2: "getUser ?b2 = UserData ?u \<and> isAdminRoute routes (pathname (nextUrl ?r2)) \<and>
      selectRole ?b2 (userId ?u) = None"
    using adm by simp
  from lookup_failures_degrade [of ?b1 "''invalid JWT''" ?r1 "''Auth session missing!''"] e1
  have raw: "middleware ?b1 ?r1 =
        (if isProtectedRoute routes (pathname (nextUrl ?r1)) then
           redirectResponse ((nextUrl ?r1)\<lparr> pathname := ''/login'',
             searchParams := paramsSet ''redirectTo'' (pathname (nextUrl ?r1)) (searchParams (nextUrl ?r1)) \<rparr>)
         else supabaseResponse (refreshSession ?b1 ?r1))"
    and two: "middleware ?b1 ?r1 = middleware (?b1\<lparr> getUser := UserError ''Auth session missing!'' \<rparr>) ?r1"
    by blast+
  from raw prot have one: "middleware ?b1 ?r1 =
      RedirectResponse \<lparr> pathname = ''/login'', searchParams = [(''redirectTo'', ''/profile'')] \<rparr> []"
    by (simp add: redirectResponse_def)
  from lookup_failures_degrade [of ?b2 _ ?r2 _ ?u] h2
  have three: "middleware ?b2 ?r2 = RedirectResponse \<lparr> pathname = ''/dashboard'', searchParams = [] \<rparr> []"
    by (simp add: redirectResponse_def)
  from two have two': "middleware ?b1 ?r1 = middleware
     \<lparr> setAllCalls = [], getUser = UserError ''Auth session missing!'', selectRole = (\<lambda>i. Some ''admin'') \<rparr> ?r1"
    by simp
  from one two' three show ?thesis by blast
qed

section \<open>Admin-protected paths (C3)\<close>

text \<open>
  Claim C3: on every pathname classified admin-protected, an authenticated caller whose
  stored role is not \<^verbatim>\<open>'admin'\<close> (another role, or no row) is redirected to
  \<^verbatim>\<open>/dashboard\<close>, never to \<^verbatim>\<open>/login\<close>.
\<close>

theorem non_admin_redirected_to_dashboard:
  "isAdminRoute routes (pathname (nextUrl req)) \<Longrightarrow> getUser b = UserData u \<Longrightarrow>
   selectRole b (userId u) \<noteq> Some ''admin'' \<Longrightarrow>
   middleware b req = redirectResponse ((nextUrl req)\<lparr> pathname := ''/dashboard'' \<rparr>) \<and>
   pathname (location (middleware b req)) = ''/dashboard'' \<and>
   pathname (location (middleware b req)) \<noteq> ''/login''"
proof -
  assume adm: "isAdminRoute routes (pathname (nextUrl req))"
    and usr: "getUser b = UserData u"
    and rol: "selectRole b (userId u) \<noteq> Some ''admin''"
  from adm have prot: "isProtectedRoute routes (pathname (nextUrl req))"
    by (simp add: isAdminRoute_def isProtectedRoute_def routes_def)
  from usr have "userOf (getUser b) = Some u" by simp
  from middlewareOn_not_admin [OF protected_not_callback [OF prot] prot adm this rol]
  have "middleware b req = redirectResponse ((nextUrl req)\<lparr> pathname := ''/dashboard'' \<rparr>)"
    by (simp add: middleware_def)
  then show ?thesis by (simp add: redirectResponse_def)
qed

theorem non_admin_redirected_to_dashboard_witness:
  "isAdminRoute routes ''/admin/users'' \<and>
   middleware
     \<lparr> setAllCalls = [], getUser = UserData \<lparr> userId = ''u7'', email = ''m@example.com'' \<rparr>,
       selectRole = (\<lambda>i. if i = ''u7'' then Some ''moderator'' else None) \<rparr>
     \<lparr> nextUrl = \<lparr> pathname = ''/admin/users'', searchParams = [(''page'', ''2'')] \<rparr>, cookies = [] \<rparr>
   = RedirectResponse \<lparr> pathname = ''/dashboard'', searchParams = [(''page'', ''2'')] \<rparr> []"
proof -
  let ?u = "\<lparr> userId = ''u7'', email = ''m@example.com'' \<rparr>"
  let ?b = "\<lparr> setAllCalls = [], getUser = UserData ?u,
       selectRole = (\<lambda>i. if i = ''u7'' then Some ''moderator'' else None) \<rparr>"
  let ?r = "\<lparr> nextUrl = \<lparr> pathname = ''/admin/users'', searchParams = [(''page'', ''2'')] \<rparr>, cookies = [] \<rparr>"
  have adm: "isAdminRoute routes (pathname (nextUrl ?r))"
    by (simp add: isAdminRoute_def routes_def)
  have usr: "getUser ?b = UserData ?u" by simp
  have rol: "selectRole ?b (userId ?u) \<noteq> Some ''admin''" by simp
  from non_admin_redirected_to_dashboard [OF adm usr rol] adm show ?thesis
    by (simp add: redirectResponse_def)
qed

section \<open>Unauthenticated requests to protected paths (C4)\<close>

text \<open>
  Claim C4: an unauthenticated request to a protected pathname is redirected to
  \<^verbatim>\<open>/login\<close>, and the redirect's only \<^verbatim>\<open>redirectTo\<close> parameter is the original
  pathname, unchanged.
\<close>

theorem unauthenticated_protected_redirects_to_login:
  "isProtectedRoute routes (pathname (nextUrl req)) \<Longrightarrow> userOf (getUser b) = None \<Longrightarrow>
   middleware b req =
     redirectResponse ((nextUrl req)\<lparr> pathname := ''/login'',
        searchParams := paramsSet ''redirectTo'' (pathname (nextUrl req)) (searchParams (nextUrl req)) \<rparr>) \<and>
   pathname (location (middleware b req)) = ''/login'' \<and>
   paramsGet ''redirectTo'' (searchParams (location (middleware b req))) = Some (pathname (nextUrl req)) \<and>
   filter (\<lambda>q. fst q = ''redirectTo'') (searchParams (location (middleware b req)))
     = [(''redirectTo'', pathname (nextUrl req))]"
proof -
  assume prot: "isProtectedRoute routes (pathname (nextUrl req))"
    and anon: "userOf (getUser b) = None"
  from middlewareOn_login [OF protected_not_callback [OF prot] prot anon]
  have "middleware b req =
     redirectResponse ((nextUrl req)\<lparr> pathname := ''/login'',
        searchParams := paramsSet ''redirectTo'' (pathname (nextUrl req)) (searchParams (nextUrl req)) \<rparr>)"
    by (simp add: middleware_def)
  then show ?thesis
    by (simp add: redirectResponse_def paramsGet_paramsSet paramsSet_single)
qed

theorem unauthenticated_protected_redirects_to_login_witness:
  "isProtectedRoute routes ''/settings/billing'' \<and>
   middleware
     \<lparr> setAllCalls = [], getUser = UserError ''Auth session missing!'', selectRole = (\<lambda>i. None) \<rparr>
     \<lparr> nextUrl = \<lparr> pathname = ''/settings/billing'',
                   searchParams = [(''tab'', ''cards''), (''redirectTo'', ''/elsewhere'')] \<rparr>,
       cookies = [] \<rparr>
   = RedirectResponse
       \<lparr> pathname = ''/login'',
         searchParams = [(''tab'', ''cards''), (''redirectTo'', ''/settings/billing'')] \<rparr> []"
proof -
  let ?b = "\<lparr> setAllCalls = [], getUser = UserError ''Auth session missing!'', selectRole = (\<lambda>i. None) \<rparr>"
  let ?r = "\<lparr> nextUrl = \<lparr> pathname = ''/settings/billing'',
                   searchParams = [(''tab'', ''cards''), (''redirectTo'', ''/elsewhere'')] \<rparr>,
       cookies = [] \<rparr>"
  have prot: "isProtectedRoute routes (pathname (nextUrl ?r))"
    by (simp add: isProtectedRoute_def routes_def)
  have anon: "userOf (getUser ?b) = None" by simp
  from unauthenticated_protected_redirects_to_login [OF prot anon] prot show ?thesis
    by (simp add: redirectResponse_def)
qed

section \<open>Authenticated requests to auth-only paths (C5)\<close>

text \<open>
  Claim C5 as stated fails when the parameter is present and empty
  (\<^verbatim>\<open>/login?redirectTo=\<close>): the empty string names no auth-only path, yet the
  middleware redirects to \<^verbatim>\<open>/dashboard\<close>, since \<^verbatim>\<open>redirectTo && ...\<close> is false for
  the empty string.
\<close>

theorem empty_redirectTo_counterexample:
  "paramsGet ''redirectTo'' [(''redirectTo'', [])] = Some [] \<and>
   \<not> isAuthRoute routes [] \<and>
   isAuthRoute routes ''/login'' \<and>
   middleware
     \<lparr> setAllCalls = [], getUser = UserData \<lparr> userId = ''u1'', email = ''a@example.com'' \<rparr>,
       selectRole = (\<lambda>i. Some ''user'') \<rparr>
     \<lparr> nextUrl = \<lparr> pathname = ''/login'', searchParams = [(''redirectTo'', [])] \<rparr>, cookies = [] \<rparr>
   = RedirectResponse \<lparr> pathname = ''/dashboard'', searchParams = [] \<rparr> []"
  by (simp add: middleware_def middlewareOn_def protectedGuard_def authRouteRedirect_def
      refreshSession_def nextResponse_def redirectResponse_def Let_def
      isProtectedRoute_def isPublicRoute_def isAuthRoute_def isAdminRoute_def routes_def)

text \<open>
  Claim C5, amended: for every authenticated request to an auth-only pathname, a
  \<^verbatim>\<open>redirectTo\<close> parameter that is present, not itself an auth-only path and a plain
  absolute path (so not empty, and left unchanged by the pathname setter) is the pathname
  of the redirect; a parameter that is absent, empty or an auth-only path gives the
  redirect to \<^verbatim>\<open>/dashboard\<close>. Either way the redirect's query is empty. What the
  redirect is for a parameter that is not a plain absolute path is not part of the
  statement.
\<close>

theorem authenticated_leaves_auth_route:
  "isAuthRoute routes (pathname (nextUrl req)) \<Longrightarrow> getUser b = UserData u \<Longrightarrow>
   (\<forall>redirectTo.
      paramsGet ''redirectTo'' (searchParams (nextUrl req)) = Some redirectTo \<and>
      \<not> isAuthRoute routes redirectTo \<and> plainPath redirectTo \<longrightarrow>
        middleware b req =
          redirectResponse ((nextUrl req)\<lparr> pathname := redirectTo, searchParams := [] \<rparr>)) \<and>
   (paramsGet ''redirectTo'' (searchParams (nextUrl req)) = None \<or>
    paramsGet ''redirectTo'' (searchParams (nextUrl req)) = Some [] \<or>
    (\<exists>redirectTo. paramsGet ''redirectTo'' (searchParams (nextUrl req)) = Some redirectTo \<and>
       isAuthRoute routes redirectTo) \<longrightarrow>
      middleware b req =
        redirectResponse ((nextUrl req)\<lparr> pathname := ''/dashboard'', searchParams := [] \<rparr>))"
proof -
  assume ar: "isAuthRoute routes (pathname (nextUrl req))" and usr: "getUser b = UserData u"
  from usr have "userOf (getUser b) = Some u" by simp
  from middlewareOn_auth_route [OF auth_not_callback [OF ar] auth_not_public [OF ar]
      auth_not_protected [OF ar] ar this]
  have block: "middleware b req = authRouteRedirect routes req"
    by (simp add: middleware_def)
  have nonempty: "d \<noteq> []" if "plainPath d" for d
    using that by (auto simp: plainPath_def)
  show ?thesis
  proof (intro conjI allI impI)
    fix redirectTo
    assume h: "paramsGet ''redirectTo'' (searchParams (nextUrl req)) = Some redirectTo \<and>
      \<not> isAuthRoute routes redirectTo \<and> plainPath redirectTo"
    then have "setPathname redirectTo = redirectTo" and "redirectTo \<noteq> []"
      using setPathname_plainPath [of redirectTo] nonempty [of redirectTo] by blast+
    with h block show "middleware b req =
        redirectResponse ((nextUrl req)\<lparr> pathname := redirectTo, searchParams := [] \<rparr>)"
      by (simp add: authRouteRedirect_def)
  next
    assume "paramsGet ''redirectTo'' (searchParams (nextUrl req)) = None \<or>
      paramsGet ''redirectTo'' (searchParams (nextUrl req)) = Some [] \<or>
      (\<exists>redirectTo. paramsGet ''redirectTo'' (searchParams (nextUrl req)) = Some redirectTo \<and>
         isAuthRoute routes redirectTo)"
    with block show "middleware b req =
        redirectResponse ((nextUrl req)\<lparr> pathname := ''/dashboard'', searchParams := [] \<rparr>)"
      by (auto simp: authRouteRedirect_def)
  qed
qed

theorem authenticated_leaves_auth_route_witness:
  "isAuthRoute routes ''/login'' \<and>
   plainPath ''/dashboard/settings'' \<and>
   middleware
     \<lparr> setAllCalls = [], getUser = UserData \<lparr> userId = ''u1'', email = ''a@example.com'' \<rparr>,
       selectRole = (\<lambda>i. Some ''user'') \<rparr>
     \<lparr> nextUrl = \<lparr> pathname = ''/login'', searchParams = [(''redirectTo'', ''/dashboard/settings'')] \<rparr>,
       cookies = [] \<rparr>
   = RedirectResponse \<lparr> pathname = ''/dashboard/settings'', searchParams = [] \<rparr> [] \<and>
   middleware
     \<lparr> setAllCalls = [], getUser = UserData \<lparr> userId = ''u1'', email = ''a@example.com'' \<rparr>,
       selectRole = (\<lambda>i. Some ''user'') \<rparr>
     \<lparr> nextUrl = \<lparr> pathname = ''/login'', searchParams = [] \<rparr>, cookies = [] \<rparr>
   = RedirectResponse \<lparr> pathname = ''/dashboard'', searchParams = [] \<rparr> [] \<and>
   middleware
     \<lparr> setAllCalls = [], getUser = UserData \<lparr> userId = ''u1'', email = ''a@example.com'' \<rparr>,
       selectRole = (\<lambda>i. Some ''user'') \<rparr>
     \<lparr> nextUrl = \<lparr> pathname = ''/login'', searchParams = [(''redirectTo'', ''/signup'')] \<rparr>, cookies = [] \<rparr>
   = RedirectResponse \<lparr> pathname = ''/dashboard'', searchParams = [] \<rparr> []"
proof -
  let ?u = "\<lparr> userId = ''u1'', email = ''a@example.com'' \<rparr>"
  let ?b = "\<lparr> setAllCalls = [], getUser = UserData ?u, selectRole = (\<lambda>i. Some ''user'') \<rparr>"
  let ?r1 = "\<lparr> nextUrl = \<lparr> pathname = ''/login'', searchParams = [(''redirectTo'', ''/dashboard/settings'')] \<rparr>,
       cookies = [] \<rparr>"
  let ?r2 = "\<lparr> nextUrl = \<lparr> pathname = ''/login'', searchParams = [] \<rparr>, cookies = [] \<rparr>"
  let ?r3 = "\<lparr> nextUrl = \<lparr> pathname = ''/login'', searchParams = [(''redirectTo'', ''/signup'')] \<rparr>, cookies = [] \<rparr>"
  have ar: "isAuthRoute routes ''/login''"
    by (simp add: isAuthRoute_def routes_def)
  have usr: "getUser ?b = UserData ?u" by simp
  have a1: "isAuthRoute routes (pathname (nextUrl ?r1))" using ar by simp
  have a2: "isAuthRoute routes (pathname (nextUrl ?r2))" using ar by simp
  have a3: "isAuthRoute routes (pathname (nextUrl ?r3))" using ar by simp
  have t1: "\<not> isAuthRoute routes ''/dashboard/settings''"
    by (simp add: isAuthRoute_def routes_def)
  have p1: "plainPath ''/dashboard/settings''"
    by (simp add: plainPath_def isSingleDot_def isDoubleDot_def inPathPercentEncodeSet_def)
  have t3: "isAuthRoute routes ''/signup''"
    by (simp add: isAuthRoute_def routes_def)
  have h1: "paramsGet ''redirectTo'' (searchParams (nextUrl ?r1)) = Some ''/dashboard/settings'' \<and>
      \<not> isAuthRoute routes ''/dashboard/settings'' \<and> plainPath ''/dashboard/settings''"
    using t1 p1 by simp
  have h2: "paramsGet ''redirectTo'' (searchParams (nextUrl ?r2)) = None" by simp
  have h3: "\<exists>d. paramsGet ''redirectTo'' (searchParams (nextUrl ?r3)) = Some d \<and> isAuthRoute routes d"
    using t3 by simp
  from authenticated_leaves_auth_route [OF a1 usr] h1
  have "middleware ?b ?r1 =
      redirectResponse ((nextUrl ?r1)\<lparr> pathname := ''/dashboard/settings'', searchParams := [] \<rparr>)"
    by blast
  then have one: "middleware ?b ?r1 =
      RedirectResponse \<lparr> pathname = ''/dashboard/settings'', searchParams = [] \<rparr> []"
    by (simp add: redirectResponse_def)
  from authenticated_leaves_auth_route [OF a2 usr] h2
  have "middleware ?b ?r2 =
      redirectResponse ((nextUrl ?r2)\<lparr> pathname := ''/dashboard'', searchParams := [] \<rparr>)"
    by blast
  then have two: "middleware ?b ?r2 = RedirectResponse \<lparr> pathname = ''/dashboard'', searchParams = [] \<rparr> []"
    by (simp add: redirectResponse_def)
  from authenticated_leaves_auth_route [OF a3 usr] h3
  have "middleware ?b ?r3 =
      redirectResponse ((nextUrl ?r3)\<lparr> pathname := ''/dashboard'', searchParams := [] \<rparr>)"
    by blast
  then have three: "middleware ?b ?r3 = RedirectResponse \<lparr> pathname = ''/dashboard'', searchParams = [] \<rparr> []"
    by (simp add: redirectResponse_def)
  from ar p1 one two three show ?thesis by blast
qed

text \<open>
  The auth-route test reads the parameter before the setter rewrites it, so a value the
  setter turns into an auth-only path passes the test: \<^verbatim>\<open>/login?redirectTo=login\<close>
  sends a signed-in caller to \<^verbatim>\<open>/login\<close> again.
\<close>

lemma auth_route_test_reads_raw_parameter:
  "\<not> isAuthRoute routes ''login'' \<and>
   isAuthRoute routes (setPathname ''login'') \<and>
   middleware
     \<lparr> setAllCalls = [], getUser = UserData \<lparr> userId = ''u1'', email = ''a@example.com'' \<rparr>,
       selectRole = (\<lambda>i. Some ''user'') \<rparr>
     \<lparr> nextUrl = \<lparr> pathname = ''/login'', searchParams = [(''redirectTo'', ''login'')] \<rparr>, cookies = [] \<rparr>
   = RedirectResponse \<lparr> pathname = ''/login'', searchParams = [] \<rparr> []"
  by (simp add: setPathname_examples middleware_def middlewareOn_def protectedGuard_def
      authRouteRedirect_def refreshSession_def nextResponse_def redirectResponse_def Let_def
      isProtectedRoute_def isPublicRoute_def isAuthRoute_def isAdminRoute_def routes_def)

section \<open>Public paths (C6)\<close>

text \<open>
  Claim C6: for an unauthenticated caller, a pathname that is public and not protected
  gets the pass-through response \<^verbatim>\<open>supabaseResponse\<close>; a pathname that is public and
  also protected is handled as protected, with the redirect to \<^verbatim>\<open>/login\<close>. No
  pathname is both under the configured tables (\<open>public_not_protected\<close>), so the
  statement is over every table of routes; the callback prefix, which is checked before
  the classes, is set aside in the second half.
\<close>

theorem public_unless_protected:
  "userOf (getUser b) = None \<Longrightarrow>
   (isPublicRoute t (pathname (nextUrl req)) \<and> \<not> isProtectedRoute t (pathname (nextUrl req)) \<longrightarrow>
      middlewareOn t b req = supabaseResponse (refreshSession b req) \<and>
      middlewareOn t b req = NextResponse (cookiesOf (supabaseResponse (refreshSession b req)))) \<and>
   (isPublicRoute t (pathname (nextUrl req)) \<and> isProtectedRoute t (pathname (nextUrl req)) \<and>
    \<not> startsWith (pathname (nextUrl req)) ''/auth/callback'' \<longrightarrow>
      middlewareOn t b req =
        redirectResponse ((nextUrl req)\<lparr> pathname := ''/login'',
          searchParams := paramsSet ''redirectTo'' (pathname (nextUrl req)) (searchParams (nextUrl req)) \<rparr>))"
  using supabaseResponse_next [of b req]
  by (simp add: middlewareOn_public middlewareOn_login)

theorem public_unless_protected_witness:
  "isPublicRoute routes ''/blog/hello'' \<and> \<not> isProtectedRoute routes ''/blog/hello'' \<and>
   middleware
     \<lparr> setAllCalls = [], getUser = UserError ''Auth session missing!'', selectRole = (\<lambda>i. None) \<rparr>
     \<lparr> nextUrl = \<lparr> pathname = ''/blog/hello'', searchParams = [] \<rparr>, cookies = [] \<rparr>
   = NextResponse [] \<and>
   isPublicRoute (routes\<lparr> publicRoutes := ''/profile'' # publicRoutes routes \<rparr>) ''/profile'' \<and>
   isProtectedRoute (routes\<lparr> publicRoutes := ''/profile'' # publicRoutes routes \<rparr>) ''/profile'' \<and>
   middlewareOn (routes\<lparr> publicRoutes := ''/profile'' # publicRoutes routes \<rparr>)
     \<lparr> setAllCalls = [], getUser = UserError ''Auth session missing!'', selectRole = (\<lambda>i. None) \<rparr>
     \<lparr> nextUrl = \<lparr> pathname = ''/profile'', searchParams = [] \<rparr>, cookies = [] \<rparr>
   = RedirectResponse \<lparr> pathname = ''/login'', searchParams = [(''redirectTo'', ''/profile'')] \<rparr> []"
proof -
  let ?b = "\<lparr> setAllCalls = [], getUser = UserError ''Auth session missing!'', selectRole = (\<lambda>i. None) \<rparr>"
  let ?r1 = "\<lparr> nextUrl = \<lparr> pathname = ''/blog/hello'', searchParams = [] \<rparr>, cookies = [] \<rparr>"
  let ?r2 = "\<lparr> nextUrl = \<lparr> pathname = ''/profile'', searchParams = [] \<rparr>, cookies = [] \<rparr>"
  let ?t = "routes\<lparr> publicRoutes := ''/profile'' # publicRoutes routes \<rparr>"
  have anon: "userOf (getUser ?b) = None" by simp
  have p1: "isPublicRoute routes ''/blog/hello''"
    by (simp add: isPublicRoute_def routes_def)
  have n1: "\<not> isProtectedRoute routes ''/blog/hello''"
    by (simp add: isProtectedRoute_def routes_def)
  have p2: "isPublicRoute ?t ''/profile''"
    by (simp add: isPublicRoute_def)
  have q2: "isProtectedRoute ?t ''/profile''"
    by (simp add: isProtectedRoute_def routes_def)
  have c2: "\<not> startsWith ''/profile'' ''/auth/callback''" by simp
  from public_unless_protected [OF anon, of routes ?r1] p1 n1
  have one: "middleware ?b ?r1 = NextResponse []"
    by (simp add: middleware_def refreshSession_def nextResponse_def)
  from public_unless_protected [OF anon, of ?t ?r2] p2 q2 c2
  have two: "middlewareOn ?t ?b ?r2 =
      RedirectResponse \<lparr> pathname = ''/login'', searchParams = [(''redirectTo'', ''/profile'')] \<rparr> []"
    by (simp add: redirectResponse_def)
  from p1 n1 one p2 q2 two show ?thesis by blast
qed

section \<open>Admin routes are protected routes (C7)\<close>

text \<open>
  Claim C7: under the configured tables and their prefix matching, every pathname
  classified admin-protected is also classified protected.
\<close>

theorem admin_implies_protected:
  "isAdminRoute routes p \<Longrightarrow> isProtectedRoute routes p"
  by (simp add: isAdminRoute_def isProtectedRoute_def routes_def)

theorem admin_implies_protected_witness:
  "isAdminRoute routes ''/admin/users'' \<and> isProtectedRoute routes ''/admin/users''"
proof -
  have a: "isAdminRoute routes ''/admin/users''"
    by (simp add: isAdminRoute_def routes_def)
  from admin_implies_protected [OF a] a show ?thesis by simp
qed

section \<open>The callback prefix (C8)\<close>

text \<open>
  Claim C8: a request whose pathname starts with \<^verbatim>\<open>/auth/callback\<close> gets
  \<^verbatim>\<open>supabaseResponse\<close>, whatever \<^verbatim>\<open>getUser\<close> and the role lookup answer and whatever
  the tables are; when the refresh wrote cookies (the last \<^verbatim>\<open>setAll\<close> batch, names
  distinct), the response is the pass-through response holding exactly them.
\<close>

theorem callback_passes_through:
  "startsWith (pathname (nextUrl req)) ''/auth/callback'' \<Longrightarrow>
   middlewareOn t b req = supabaseResponse (refreshSession b req) \<and>
   middlewareOn t b req = NextResponse (cookiesOf (supabaseResponse (refreshSession b req))) \<and>
   (\<forall>calls cs. setAllCalls b = calls @ [cs] \<and> distinct (map cookieName cs) \<longrightarrow>
      middlewareOn t b req = NextResponse cs)"
  using supabaseResponse_next [of b req]
  by (simp add: middlewareOn_callback refreshSession_carries)

theorem callback_passes_through_witness:
  "startsWith ''/auth/callback/github'' ''/auth/callback'' \<and>
   middleware
     \<lparr> setAllCalls = [[\<lparr> cookieName = ''sb-access-token'', cookieValue = ''fresh'', cookieOptions = [(''path'', ''/'')] \<rparr>]],
       getUser = UserError ''Auth session missing!'',
       selectRole = (\<lambda>i. None) \<rparr>
     \<lparr> nextUrl = \<lparr> pathname = ''/auth/callback/github'', searchParams = [(''code'', ''abc'')] \<rparr>,
       cookies = [] \<rparr>
   = NextResponse [\<lparr> cookieName = ''sb-access-token'', cookieValue = ''fresh'', cookieOptions = [(''path'', ''/'')] \<rparr>]"
proof -
  let ?c = "\<lparr> cookieName = ''sb-access-token'', cookieValue = ''fresh'', cookieOptions = [(''path'', ''/'')] \<rparr>"
  let ?b = "\<lparr> setAllCalls = [[?c]], getUser = UserError ''Auth session missing!'', selectRole = (\<lambda>i. None) \<rparr>"
  let ?r = "\<lparr> nextUrl = \<lparr> pathname = ''/auth/callback/github'', searchParams = [(''code'', ''abc'')] \<rparr>, cookies = [] \<rparr>"
  have cb: "startsWith (pathname (nextUrl ?r)) ''/auth/callback''" by simp
  have calls: "setAllCalls ?b = [] @ [[?c]] \<and> distinct (map cookieName [?c])" by simp
  from callback_passes_through [OF cb, of routes ?b] calls
  have "middlewareOn routes ?b ?r = NextResponse [?c]" by blast
  then show ?thesis by (simp add: middleware_def)
qed

section \<open>The role hierarchy (C9)\<close>

text \<open>
  Claim C9: with both roles given, \<^verbatim>\<open>checkUserRole(required, actual)\<close> is true exactly
  when the ordinal of the actual role is at least that of the required one, the ordinals
  being ordered user, moderator, admin; required user with actual admin is true, required
  admin with actual moderator is false, moderator with moderator is true.
\<close>

theorem checkUserRole_is_ordinal_comparison:
  "checkUserRole s required (Some actual) = (roleHierarchy actual \<ge> roleHierarchy required) \<and>
   roleHierarchy User < roleHierarchy Moderator \<and>
   roleHierarchy Moderator < roleHierarchy Admin \<and>
   checkUserRole s User (Some Admin) = True \<and>
   checkUserRole s Admin (Some Moderator) = False \<and>
   checkUserRole s Moderator (Some Moderator) = True"
  by (simp add: checkUserRole_def)

theorem checkUserRole_is_ordinal_comparison_witness:
  "checkUserRole \<lparr> authGetUser = UserError ''Auth session missing!'', selectUser = (\<lambda>i. RowError ''no rows'') \<rparr>
     Moderator (Some Admin) \<and>
   \<not> checkUserRole \<lparr> authGetUser = UserError ''Auth session missing!'', selectUser = (\<lambda>i. RowError ''no rows'') \<rparr>
     Moderator (Some User)"
  using checkUserRole_is_ordinal_comparison
    [of "\<lparr> authGetUser = UserError ''Auth session missing!'', selectUser = (\<lambda>i. RowError ''no rows'') \<rparr>" Moderator Admin]
    checkUserRole_is_ordinal_comparison
    [of "\<lparr> authGetUser = UserError ''Auth session missing!'', selectUser = (\<lambda>i. RowError ''no rows'') \<rparr>" Moderator User]
  by simp

section \<open>requireRole (C10)\<close>

text \<open>
  Claim C10: \<^verbatim>\<open>requireRole(required)\<close> fails with the error coded
  \<^verbatim>\<open>UNAUTHORIZED\<close> when no user is logged in, with the error coded
  \<^verbatim>\<open>INSUFFICIENT_PERMISSIONS\<close> when the logged-in user's profile has a role of lower
  ordinal than the required one, and returns the profile when the ordinal suffices; the
  two codes differ.
\<close>

theorem requireRole_distinguishes_failures:
  "(authGetUser s = UserError e \<longrightarrow>
      requireRole s required = Inl (AuthError ''Authentication required'' (Some ''UNAUTHORIZED''))) \<and>
   (authGetUser s = UserData u \<and> selectUser s (userId u) = RowData profile \<and>
    roleHierarchy (role profile) < roleHierarchy required \<longrightarrow>
      requireRole s required =
        Inl (AuthError (''Access denied. Required role: '' @ roleName required)
              (Some ''INSUFFICIENT_PERMISSIONS''))) \<and>
   (authGetUser s = UserData u \<and> selectUser s (userId u) = RowData profile \<and>
    roleHierarchy (role profile) \<ge> roleHierarchy required \<longrightarrow>
      requireRole s required = Inr profile) \<and>
   code (AuthError ''Authentication required'' (Some ''UNAUTHORIZED'')) \<noteq>
   code (AuthError (''Access denied. Required role: '' @ roleName required)
          (Some ''INSUFFICIENT_PERMISSIONS''))"
  by (simp add: requireRole_def requireAuth_def getCurrentUser_def getCurrentUserProfile_def
      checkUserRole_def not_le)

theorem requireRole_distinguishes_failures_witness:
  "requireRole \<lparr> authGetUser = UserError ''Auth session missing!'', selectUser = (\<lambda>i. RowError ''no rows'') \<rparr> Moderator
     = Inl (AuthError ''Authentication required'' (Some ''UNAUTHORIZED'')) \<and>
   requireRole
     \<lparr> authGetUser = UserData \<lparr> userId = ''u1'', email = ''a@example.com'' \<rparr>,
       selectUser = (\<lambda>i. RowData \<lparr> rowId = i, rowEmail = ''a@example.com'', rowName = None,
                                   role = User, is_active = True \<rparr>) \<rparr> Moderator
     = Inl (AuthError ''Access denied. Required role: moderator'' (Some ''INSUFFICIENT_PERMISSIONS'')) \<and>
   requireRole
     \<lparr> authGetUser = UserData \<lparr> userId = ''u1'', email = ''a@example.com'' \<rparr>,
       selectUser = (\<lambda>i. RowData \<lparr> rowId = i, rowEmail = ''a@example.com'', rowName = None,
                                   role = Admin, is_active = True \<rparr>) \<rparr> Moderator
     = Inr \<lparr> rowId = ''u1'', rowEmail = ''a@example.com'', rowName = None, role = Admin, is_active = True \<rparr>"
proof -
  let ?u = "\<lparr> userId = ''u1'', email = ''a@example.com'' \<rparr>"
  let ?row = "\<lambda>r i. \<lparr> rowId = i, rowEmail = ''a@example.com'', rowName = None, role = r, is_active = True \<rparr>"
  let ?s0 = "\<lparr> authGetUser = UserError ''Auth session missing!'', selectUser = (\<lambda>i. RowError ''no rows'') \<rparr>"
  let ?s1 = "\<lparr> authGetUser = UserData ?u, selectUser = (\<lambda>i. RowData (?row User i)) \<rparr>"
  let ?s2 = "\<lparr> authGetUser = UserData ?u, selectUser = (\<lambda>i. RowData (?row Admin i)) \<rparr>"
  have h0: "authGetUser ?s0 = UserError ''Auth session missing!''" by simp
  have h1: "authGetUser ?s1 = UserData ?u \<and> selectUser ?s1 (userId ?u) = RowData (?row User ''u1'') \<and>
      roleHierarchy (role (?row User ''u1'')) < roleHierarchy Moderator" by simp
  have h2: "authGetUser ?s2 = UserData ?u \<and> selectUser ?s2 (userId ?u) = RowData (?row Admin ''u1'') \<and>
      roleHierarchy (role (?row Admin ''u1'')) \<ge> roleHierarchy Moderator" by simp
  from requireRole_distinguishes_failures [of ?s0 "''Auth session missing!''" Moderator] h0
  have one: "requireRole ?s0 Moderator = Inl (AuthError ''Authentication required'' (Some ''UNAUTHORIZED''))"
    by blast
  from requireRole_distinguishes_failures [of ?s1 _ Moderator ?u "?row User ''u1''"] h1
  have two: "requireRole ?s1 Moderator =
      Inl (AuthError (''Access denied. Required role: '' @ roleName Moderator) (Some ''INSUFFICIENT_PERMISSIONS''))"
    by blast
  from requireRole_distinguishes_failures [of ?s2 _ Moderator ?u "?row Admin ''u1''"] h2
  have three: "requireRole ?s2 Moderator = Inr (?row Admin ''u1'')"
    by blast
  from one two three show ?thesis by simp
qed

end
